theory Spec2Isabelle
  imports Complex_Main
begin

section \<open>The notebook \<^verbatim>\<open>notebooks/exploratory_analysis.ipynb\<close>\<close>

text \<open>
  The repository's program is one Jupyter notebook of eleven code cells. The first six
  install a package, install a warnings filter, import the libraries, set four display
  options of pandas, print the author and read the sheet \<^verbatim>\<open>Orders\<close> of
  \<^verbatim>\<open>../data/raw/superstore.xls\<close> into the variable \<^verbatim>\<open>df\<close>; the last five,
  under the heading Data Profiling, hold no source line.

  The model is a shallow embedding: a statement is a function from the state of the
  kernel to an error or the next state, a cell is the list of its statements, and the
  notebook is the list of its cells, run from top to bottom and stopped by the first
  exception. The state holds what the statements read and write: the working directory,
  the files, the importable packages, the filter list of the module \<^verbatim>\<open>warnings\<close>, the
  variables, the options of pandas and what has been printed. The library calls
  (\<^verbatim>\<open>warnings.filterwarnings\<close>, \<^verbatim>\<open>os.path\<close>, \<^verbatim>\<open>pd.read_excel\<close>) are given the
  behaviour their libraries document for the arguments the notebook passes; importing a
  module binds its name and runs no code of the module.
\<close>

subsection \<open>Values\<close>

text \<open>
  A path is the list of its components below the root, so every path of the model is
  absolute and the separator of the platform plays no part.
\<close>

type_synonym path = "string list"

text \<open>
  The value of a spreadsheet cell. The notebook does no arithmetic on a cell, so a number
  is kept as the rational it denotes.
\<close>

datatype xl_cell = Blank | Text string | Number rat | Date nat nat nat | Boolean bool

text \<open>A worksheet is the grid of its rows; a workbook lists its sheets by name.\<close>

type_synonym sheet = "xl_cell list list"

datatype file_content = Workbook "(string \<times> sheet) list" | NotExcel

text \<open>
  A DataFrame: the column labels, the name and the labels of the index, and the rows of
  values, one row per index label.
\<close>

record dataframe =
  columns :: "xl_cell list"
  index_name :: "string option"
  index :: "xl_cell list"
  data_rows :: "xl_cell list list"

datatype pyval = VModule string | VPath path | VFrame dataframe

datatype optval = OInt int | OFormat string

subsection \<open>The module \<^verbatim>\<open>warnings\<close>\<close>

text \<open>
  A warning category is the class \<^verbatim>\<open>Warning\<close> or a named subclass of a category.
\<close>

datatype category = Warning | Subclass string category


datatype action = Error | Ignore | Always | Default | Module | Once

text \<open>
  An entry of \<^verbatim>\<open>warnings.filters\<close> is the tuple (action, message, category, module,
  lineno); message and module are a regular expression or \<^verbatim>\<open>None\<close>.
\<close>

type_synonym wfilter = "action \<times> string option \<times> category \<times> string option \<times> nat"

record warning =
  w_text :: string
  w_category :: category
  w_module :: string
  w_lineno :: nat

datatype py_error =
    ModuleNotFoundError string
  | NameError string
  | AttributeError string
  | TypeError string
  | UsageError string
  | FileNotFoundError path
  | XLRDError
  | ValueError string
  | Raised warning

subsection \<open>The state of the kernel\<close>

record kernel =
  cwd :: path
  files :: "path \<rightharpoonup> file_content"
  installed :: "string set"
  online :: bool
  filters :: "wfilter list"
  defaultaction :: action
  registry :: "(string \<times> string \<times> category \<times> nat) set"
  onceregistry :: "(string \<times> category) set"
  namespace :: "string \<rightharpoonup> pyval"
  options :: "string \<rightharpoonup> optval"
  backend :: "string option"
  extensions :: "string set"
  stdout :: "string list"
  stderr :: "warning list"

type_synonym stmt = "kernel \<Rightarrow> py_error + kernel"

type_synonym nb_cell = "stmt list"

subsection \<open>Running statements and cells\<close>

text \<open>An exception ends the cell, and Run All stops at the first cell that raised.\<close>

fun exec :: "nb_cell \<Rightarrow> kernel \<Rightarrow> py_error + kernel" where
  "exec [] s = Inr s"
| "exec (st # sts) s = (case st s of Inl e \<Rightarrow> Inl e | Inr s' \<Rightarrow> exec sts s')"

fun run_cells :: "nb_cell list \<Rightarrow> kernel \<Rightarrow> py_error + kernel" where
  "run_cells [] s = Inr s"
| "run_cells (c # cs) s = (case exec c s of Inl e \<Rightarrow> Inl e | Inr s' \<Rightarrow> run_cells cs s')"

subsection \<open>Names\<close>

definition assign :: "string \<Rightarrow> pyval \<Rightarrow> kernel \<Rightarrow> kernel" where
  "assign x v s = s\<lparr>namespace := (namespace s)(x \<mapsto> v)\<rparr>"

text \<open>
  \<^verbatim>\<open>alias.attr\<close>: the name must be bound (\<^verbatim>\<open>NameError\<close>) to the module that has the
  attribute (\<^verbatim>\<open>AttributeError\<close>).
\<close>

definition the_module :: "string \<Rightarrow> string \<Rightarrow> kernel \<Rightarrow> py_error + unit" where
  "the_module alias m s =
     (case namespace s alias of
        None \<Rightarrow> Inl (NameError alias)
      | Some v \<Rightarrow> if v = VModule m then Inr () else Inl (AttributeError alias))"

definition get_path :: "string \<Rightarrow> kernel \<Rightarrow> py_error + path" where
  "get_path x s =
     (case namespace s x of
        None \<Rightarrow> Inl (NameError x)
      | Some (VPath p) \<Rightarrow> Inr p
      | Some _ \<Rightarrow> Inl (TypeError x))"

subsection \<open>Cell fe46a8c7: the shell command\<close>

text \<open>
  \<^verbatim>\<open>!pip install -q -U watermark\<close> runs in a subprocess: it makes the package
  importable when the index can be reached and raises nothing in the kernel otherwise.
\<close>

definition pip_install :: "string \<Rightarrow> stmt" where
  "pip_install pkg s =
     Inr (if online s then s\<lparr>installed := insert pkg (installed s)\<rparr> else s)"

definition cell_fe46a8c7 :: nb_cell where
  "cell_fe46a8c7 = [pip_install ''watermark'']"

subsection \<open>Cell 88f70f8a: the warnings filter\<close>

text \<open>A module of the standard library is always importable.\<close>

definition import_stdlib :: "string \<Rightarrow> stmt" where
  "import_stdlib m s = Inr (assign m (VModule m) s)"

text \<open>
  \<^verbatim>\<open>warnings.filterwarnings(action)\<close> with the defaults \<^verbatim>\<open>message=""\<close>,
  \<^verbatim>\<open>category=Warning\<close>, \<^verbatim>\<open>module=""\<close>, \<^verbatim>\<open>lineno=0\<close>, \<^verbatim>\<open>append=False\<close>: an empty
  pattern is stored as \<^verbatim>\<open>None\<close>; an equal entry is removed and the new one is put
  in front. Changing the list invalidates the registries of warnings already shown.
\<close>

definition filterwarnings :: "action \<Rightarrow> stmt" where
  "filterwarnings a s =
     (case the_module ''warnings'' ''warnings'' s of
        Inl e \<Rightarrow> Inl e
      | Inr _ \<Rightarrow>
          (let item = (a, None, Warning, None, 0) in
           Inr (s\<lparr>filters := item # remove1 item (filters s), registry := {}\<rparr>)))"

definition cell_88f70f8a :: nb_cell where
  "cell_88f70f8a = [import_stdlib ''warnings'', filterwarnings Ignore]"





subsection \<open>Cell 0ba58c35: the imports\<close>

text \<open>\<^verbatim>\<open>import m as alias\<close> of a module of the package \<open>pkg\<close>.\<close>

definition import_as :: "string \<Rightarrow> string \<Rightarrow> string \<Rightarrow> stmt" where
  "import_as pkg m alias s =
     (if pkg \<in> installed s then Inr (assign alias (VModule m) s)
      else Inl (ModuleNotFoundError pkg))"

text \<open>\<^verbatim>\<open>%matplotlib inline\<close> selects the backend of matplotlib.\<close>

definition matplotlib_magic :: "string \<Rightarrow> stmt" where
  "matplotlib_magic b s =
     (if ''matplotlib'' \<in> installed s then Inr (s\<lparr>backend := Some b\<rparr>)
      else Inl (ModuleNotFoundError ''matplotlib''))"

definition cell_0ba58c35 :: nb_cell where
  "cell_0ba58c35 =
     [import_stdlib ''os'',
      import_as ''pandas'' ''pandas'' ''pd'',
      import_as ''numpy'' ''numpy'' ''np'',
      import_as ''matplotlib'' ''matplotlib.pyplot'' ''plt'',
      matplotlib_magic ''inline'',
      import_as ''seaborn'' ''seaborn'' ''sns'']"

subsection \<open>Cell 4f6b0e6f: the display options\<close>

definition set_option :: "string \<Rightarrow> optval \<Rightarrow> stmt" where
  "set_option k v s =
     (case the_module ''pd'' ''pandas'' s of
        Inl e \<Rightarrow> Inl e
      | Inr _ \<Rightarrow> Inr (s\<lparr>options := (options s)(k \<mapsto> v)\<rparr>))"

definition cell_4f6b0e6f :: nb_cell where
  "cell_4f6b0e6f =
     [set_option ''display.max_columns'' (OInt 250),
      set_option ''display.max_rows'' (OInt 300),
      set_option ''display.width'' (OInt 1000),
      set_option ''display.float_format'' (OFormat ''{:,.4f}'')]"

subsection \<open>Cell b8017e62: the author line\<close>

definition reload_ext :: "string \<Rightarrow> stmt" where
  "reload_ext m s =
     (if m \<in> installed s then Inr (s\<lparr>extensions := insert m (extensions s)\<rparr>)
      else Inl (ModuleNotFoundError m))"

definition watermark :: "string \<Rightarrow> stmt" where
  "watermark author s =
     (if ''watermark'' \<in> extensions s
      then Inr (s\<lparr>stdout := stdout s @ [''Author: '' @ author, '''']\<rparr>)
      else Inl (UsageError ''watermark''))"

definition cell_b8017e62 :: nb_cell where
  "cell_b8017e62 = [reload_ext ''watermark'', watermark ''AmeduStephen'']"

subsection \<open>Cell 53ad0d7f: data acquisition\<close>

text \<open>
  \<^verbatim>\<open>os.path.join\<close> with relative components appends them; \<^verbatim>\<open>os.path.abspath\<close> of
  an absolute path normalises it: an empty component and \<^verbatim>\<open>.\<close> are dropped, and
  \<^verbatim>\<open>..\<close> drops the component before it (none at the root).
\<close>

definition join :: "path \<Rightarrow> string list \<Rightarrow> path" where
  "join p cs = p @ cs"

definition normpath_step :: "path \<Rightarrow> string \<Rightarrow> path" where
  "normpath_step acc c =
     (if c = '''' \<or> c = ''.'' then acc
      else if c = ''..'' then butlast acc
      else acc @ [c])"

definition abspath :: "path \<Rightarrow> path" where
  "abspath p = foldl normpath_step [] p"

text \<open>
  \<^verbatim>\<open>pd.read_excel(path, sheet_name=..., index_col=...)\<close> with the default
  \<^verbatim>\<open>header=0\<close>. The first row of the sheet gives the column labels and every later
  row becomes one row of the frame; the column labelled \<open>index_col\<close> (the first one of
  that label) becomes the index and leaves the columns. A sheet with no row at all gives
  the empty frame. The reader hands over a grid, so a row is as wide as the header:
  \<open>pad\<close> says so for a row written shorter or longer. The frame keeps each cell as
  the sheet has it: the dtype pandas chooses for a column, and its NaN for a blank cell
  or an NA marker, are how a value is held and are not modelled.
\<close>

fun position :: "'a \<Rightarrow> 'a list \<Rightarrow> nat option" where
  "position x [] = None"
| "position x (y # ys) = (if x = y then Some 0 else map_option Suc (position x ys))"

definition drop_col :: "nat \<Rightarrow> 'a list \<Rightarrow> 'a list" where
  "drop_col i xs = take i xs @ drop (Suc i) xs"

definition pad :: "nat \<Rightarrow> xl_cell list \<Rightarrow> xl_cell list" where
  "pad n r = take n r @ replicate (n - length r) Blank"

definition empty_frame :: dataframe where
  "empty_frame = \<lparr>columns = [], index_name = None, index = [], data_rows = []\<rparr>"

definition parse_sheet :: "string \<Rightarrow> sheet \<Rightarrow> py_error + dataframe" where
  "parse_sheet index_col sh =
     (case sh of
        [] \<Rightarrow> Inr empty_frame
      | hdr # body \<Rightarrow>
          (case position (Text index_col) hdr of
             None \<Rightarrow> Inl (ValueError (''Index '' @ index_col @ '' invalid''))
           | Some i \<Rightarrow>
               Inr \<lparr>columns = drop_col i hdr,
                    index_name = Some index_col,
                    index = map (\<lambda>r. pad (length hdr) r ! i) body,
                    data_rows = map (\<lambda>r. drop_col i (pad (length hdr) r)) body\<rparr>))"

definition read_excel :: "(path \<rightharpoonup> file_content) \<Rightarrow> path \<Rightarrow> string \<Rightarrow> string \<Rightarrow> py_error + dataframe" where
  "read_excel fs p sheet_name index_col =
     (case fs p of
        None \<Rightarrow> Inl (FileNotFoundError p)
      | Some NotExcel \<Rightarrow> Inl XLRDError
      | Some (Workbook sheets) \<Rightarrow>
          (case map_of sheets sheet_name of
             None \<Rightarrow> Inl (ValueError (''Worksheet named '' @ sheet_name @ '' not found''))
           | Some sh \<Rightarrow> parse_sheet index_col sh))"

text \<open>The four statements of the cell, each named after the variable it binds.\<close>

definition script_dir :: stmt where
  "script_dir s =
     (case the_module ''os'' ''os'' s of
        Inl e \<Rightarrow> Inl e
      | Inr _ \<Rightarrow> Inr (assign ''script_dir'' (VPath (cwd s)) s))"

definition parent_dir :: stmt where
  "parent_dir s =
     (case the_module ''os'' ''os'' s of
        Inl e \<Rightarrow> Inl e
      | Inr _ \<Rightarrow>
          (case get_path ''script_dir'' s of
             Inl e \<Rightarrow> Inl e
           | Inr p \<Rightarrow> Inr (assign ''parent_dir'' (VPath (abspath (join p [''..'']))) s)))"

definition raw_data_path :: stmt where
  "raw_data_path s =
     (case the_module ''os'' ''os'' s of
        Inl e \<Rightarrow> Inl e
      | Inr _ \<Rightarrow>
          (case get_path ''parent_dir'' s of
             Inl e \<Rightarrow> Inl e
           | Inr p \<Rightarrow>
               Inr (assign ''raw_data_path''
                      (VPath (join p [''data'', ''raw'', ''superstore.xls''])) s)))"

definition df :: stmt where
  "df s =
     (case the_module ''pd'' ''pandas'' s of
        Inl e \<Rightarrow> Inl e
      | Inr _ \<Rightarrow>
          (case get_path ''raw_data_path'' s of
             Inl e \<Rightarrow> Inl e
           | Inr p \<Rightarrow>
               (case read_excel (files s) p ''Orders'' ''Row ID'' of
                  Inl e \<Rightarrow> Inl e
                | Inr d \<Rightarrow> Inr (assign ''df'' (VFrame d) s))))"

definition cell_53ad0d7f :: nb_cell where
  "cell_53ad0d7f = [script_dir, parent_dir, raw_data_path, df]"

subsection \<open>Cells b85d04b3, 3d9bb2b8, 18ef4307, bec0a973, bb5af4d4: Data Profiling\<close>

text \<open>The five cells under the heading Data Profiling have no source line.\<close>

definition cell_b85d04b3 :: nb_cell where
  "cell_b85d04b3 = []"

definition cell_3d9bb2b8 :: nb_cell where
  "cell_3d9bb2b8 = []"

definition cell_18ef4307 :: nb_cell where
  "cell_18ef4307 = []"

definition cell_bec0a973 :: nb_cell where
  "cell_bec0a973 = []"

definition cell_bb5af4d4 :: nb_cell where
  "cell_bb5af4d4 = []"

subsection \<open>The notebook\<close>

definition setup_cells :: "nb_cell list" where
  "setup_cells = [cell_fe46a8c7, cell_88f70f8a, cell_0ba58c35, cell_4f6b0e6f, cell_b8017e62]"

definition profiling_cells :: "nb_cell list" where
  "profiling_cells = [cell_b85d04b3, cell_3d9bb2b8, cell_18ef4307, cell_bec0a973, cell_bb5af4d4]"

definition notebook :: "nb_cell list" where
  "notebook = setup_cells @ [cell_53ad0d7f] @ profiling_cells"

definition run_all :: "kernel \<Rightarrow> py_error + kernel" where
  "run_all s = run_cells notebook s"

subsection \<open>What a run leaves behind\<close>

text \<open>
  The path the acquisition cell computes from the working directory:
  \<^verbatim>\<open>os.path.join(os.path.abspath(os.path.join(os.getcwd(), "..")), "data", "raw",
  "superstore.xls")\<close>.
\<close>

definition superstore_xls :: "path \<Rightarrow> path" where
  "superstore_xls c = join (abspath (join c [''..''])) [''data'', ''raw'', ''superstore.xls'']"

text \<open>
  The packages importable after the shell command, the first package an import or a magic
  of the five setup cells does not find, and the state those cells leave when every
  package is found.
\<close>

definition pip_installed :: "kernel \<Rightarrow> string set" where
  "pip_installed s = (if online s then insert ''watermark'' (installed s) else installed s)"

definition missing_package :: "kernel \<Rightarrow> string option" where
  "missing_package s =
     List.find (\<lambda>p. p \<notin> pip_installed s)
       [''pandas'', ''numpy'', ''matplotlib'', ''seaborn'', ''watermark'']"

definition after_setup :: "kernel \<Rightarrow> kernel" where
  "after_setup s =
     s\<lparr>installed := pip_installed s,
       filters := (Ignore, None, Warning, None, 0) # remove1 (Ignore, None, Warning, None, 0) (filters s),
       registry := {},
       namespace := (namespace s)
          (''warnings'' \<mapsto> VModule ''warnings'', ''os'' \<mapsto> VModule ''os'',
           ''pd'' \<mapsto> VModule ''pandas'', ''np'' \<mapsto> VModule ''numpy'',
           ''plt'' \<mapsto> VModule ''matplotlib.pyplot'', ''sns'' \<mapsto> VModule ''seaborn''),
       options := (options s)
          (''display.max_columns'' \<mapsto> OInt 250, ''display.max_rows'' \<mapsto> OInt 300,
           ''display.width'' \<mapsto> OInt 1000, ''display.float_format'' \<mapsto> OFormat ''{:,.4f}''),
       backend := Some ''inline'',
       extensions := insert ''watermark'' (extensions s),
       stdout := stdout s @ [''Author: AmeduStephen'', '''']\<rparr>"

text \<open>The state the acquisition cell leaves when the sheet was read as the frame \<open>d\<close>.\<close>

definition after_acquisition :: "kernel \<Rightarrow> dataframe \<Rightarrow> kernel" where
  "after_acquisition t d =
     t\<lparr>namespace := (namespace t)
          (''script_dir'' \<mapsto> VPath (cwd t),
           ''parent_dir'' \<mapsto> VPath (abspath (join (cwd t) [''..''])),
           ''raw_data_path'' \<mapsto> VPath (superstore_xls (cwd t)),
           ''df'' \<mapsto> VFrame d)\<rparr>"

text \<open>
  What a run hands to whoever reads its result: the exception that stopped it, or the
  value of the variable \<^verbatim>\<open>df\<close>.
\<close>

definition loaded :: "py_error + kernel \<Rightarrow> py_error + pyval option" where
  "loaded r = (case r of Inl e \<Rightarrow> Inl e | Inr s \<Rightarrow> Inr (namespace s ''df''))"

text \<open>The variables that hold a DataFrame.\<close>

definition frame_names :: "kernel \<Rightarrow> string set" where
  "frame_names s = {x. \<exists>d. namespace s x = Some (VFrame d)}"



subsection \<open>A concrete run\<close>

text \<open>
  A workbook of two orders, the first with the discount 1.5, in a kernel started in
  \<^verbatim>\<open>/home/superstore/notebooks\<close> whose filter list turns a deprecation warning into an
  exception; and the state the notebook leaves there.
\<close>

definition example_sheet :: sheet where
  "example_sheet =
     [[Text ''Row ID'', Text ''Order ID'', Text ''Sale'', Text ''Discount'',
       Text ''Quantity'', Text ''Profit''],
      [Number 1, Text ''CA-2016-152156'', Number 100, Number (3/2), Number 2, Number 10],
      [Number 2, Text ''CA-2016-138688'', Number 200, Number (1/5), Number 1, Number 20]]"

definition example_frame :: dataframe where
  "example_frame =
     \<lparr>columns = [Text ''Order ID'', Text ''Sale'', Text ''Discount'', Text ''Quantity'',
                 Text ''Profit''],
      index_name = Some ''Row ID'',
      index = [Number 1, Number 2],
      data_rows =
        [[Text ''CA-2016-152156'', Number 100, Number (3/2), Number 2, Number 10],
         [Text ''CA-2016-138688'', Number 200, Number (1/5), Number 1, Number 20]]\<rparr>"

definition example_kernel :: kernel where
  "example_kernel =
     \<lparr>cwd = [''home'', ''superstore'', ''notebooks''],
      files = [[''home'', ''superstore'', ''data'', ''raw'', ''superstore.xls''] \<mapsto>
                 Workbook [(''Orders'', example_sheet)]],
      installed = {''pandas'', ''numpy'', ''matplotlib'', ''seaborn'', ''watermark''},
      online = False,
      filters = [(Error, None, Subclass ''DeprecationWarning'' Warning, None, 0)],
      defaultaction = Default,
      registry = {},
      onceregistry = {},
      namespace = Map.empty,
      options = Map.empty,
      backend = None,
      extensions = {},
      stdout = [],
      stderr = []\<rparr>"

definition example_final :: kernel where
  "example_final =
     \<lparr>cwd = [''home'', ''superstore'', ''notebooks''],
      files = [[''home'', ''superstore'', ''data'', ''raw'', ''superstore.xls''] \<mapsto>
                 Workbook [(''Orders'', example_sheet)]],
      installed = {''pandas'', ''numpy'', ''matplotlib'', ''seaborn'', ''watermark''},
      online = False,
      filters = [(Ignore, None, Warning, None, 0),
                 (Error, None, Subclass ''DeprecationWarning'' Warning, None, 0)],
      defaultaction = Default,
      registry = {},
      onceregistry = {},
      namespace =
        [''warnings'' \<mapsto> VModule ''warnings'', ''os'' \<mapsto> VModule ''os'',
         ''pd'' \<mapsto> VModule ''pandas'', ''np'' \<mapsto> VModule ''numpy'',
         ''plt'' \<mapsto> VModule ''matplotlib.pyplot'', ''sns'' \<mapsto> VModule ''seaborn'',
         ''script_dir'' \<mapsto> VPath [''home'', ''superstore'', ''notebooks''],
         ''parent_dir'' \<mapsto> VPath [''home'', ''superstore''],
         ''raw_data_path'' \<mapsto>
            VPath [''home'', ''superstore'', ''data'', ''raw'', ''superstore.xls''],
         ''df'' \<mapsto> VFrame example_frame],
      options =
        [''display.max_columns'' \<mapsto> OInt 250, ''display.max_rows'' \<mapsto> OInt 300,
         ''display.width'' \<mapsto> OInt 1000, ''display.float_format'' \<mapsto> OFormat ''{:,.4f}''],
      backend = Some ''inline'',
      extensions = {''watermark''},
      stdout = [''Author: AmeduStephen'', ''''],
      stderr = []\<rparr>"


section \<open>The run, cell by cell\<close>


lemma run_cells_append:
  "run_cells (xs @ ys) s = (case run_cells xs s of Inl e \<Rightarrow> Inl e | Inr t \<Rightarrow> run_cells ys t)"
  by (induction xs arbitrary: s) (auto split: sum.splits)


lemmas stmt_defs = pip_install_def import_stdlib_def filterwarnings_def import_as_def
  matplotlib_magic_def set_option_def reload_ext_def watermark_def the_module_def assign_def

lemmas setup_cell_defs = cell_fe46a8c7_def cell_88f70f8a_def cell_0ba58c35_def
  cell_4f6b0e6f_def cell_b8017e62_def

lemmas profiling_cell_defs = cell_b85d04b3_def cell_3d9bb2b8_def cell_18ef4307_def
  cell_bec0a973_def cell_bb5af4d4_def

text \<open>
  The five setup cells stop at the first package that is not importable and otherwise
  leave \<open>after_setup\<close>: no name is used before the cell that binds it.
\<close>

lemma run_setup_cells:
  "run_cells setup_cells s =
     (case missing_package s of
        Some p \<Rightarrow> Inl (ModuleNotFoundError p)
      | None \<Rightarrow> Inr (after_setup s))"
  by (simp add: setup_cells_def setup_cell_defs stmt_defs after_setup_def missing_package_def
        pip_installed_def Let_def)

lemma exec_acquisition:
  assumes "namespace t ''os'' = Some (VModule ''os'')"
    and "namespace t ''pd'' = Some (VModule ''pandas'')"
  shows "exec cell_53ad0d7f t =
     (case read_excel (files t) (superstore_xls (cwd t)) ''Orders'' ''Row ID'' of
        Inl e \<Rightarrow> Inl e
      | Inr d \<Rightarrow> Inr (after_acquisition t d))"
  using assms
  by (simp add: cell_53ad0d7f_def script_dir_def parent_dir_def raw_data_path_def df_def
        the_module_def get_path_def assign_def after_acquisition_def superstore_xls_def
        split: sum.splits)

lemma run_profiling_cells: "run_cells profiling_cells t = Inr t"
  by (simp add: profiling_cells_def profiling_cell_defs)

text \<open>The whole run in one equation.\<close>

lemma run_all_eq:
  "run_all s =
     (case missing_package s of
        Some p \<Rightarrow> Inl (ModuleNotFoundError p)
      | None \<Rightarrow>
          (case read_excel (files s) (superstore_xls (cwd s)) ''Orders'' ''Row ID'' of
             Inl e \<Rightarrow> Inl e
           | Inr d \<Rightarrow> Inr (after_acquisition (after_setup s) d)))"
proof (cases "missing_package s")
  case (Some p)
  then show ?thesis
    by (simp add: run_all_def notebook_def run_cells_append run_setup_cells)
next
  case None
  have os: "namespace (after_setup s) ''os'' = Some (VModule ''os'')"
    and pd: "namespace (after_setup s) ''pd'' = Some (VModule ''pandas'')"
    by (simp_all add: after_setup_def)
  have env: "files (after_setup s) = files s" "cwd (after_setup s) = cwd s"
    by (simp_all add: after_setup_def)
  show ?thesis
    using None
    by (simp add: run_all_def notebook_def run_cells_append run_setup_cells
          exec_acquisition [OF os pd] env run_profiling_cells split: sum.splits)
qed

text \<open>A run that ends without an exception found every package and read a frame.\<close>

lemma run_all_Inr:
  assumes "run_all s = Inr s'"
  obtains d where "missing_package s = None"
    and "read_excel (files s) (superstore_xls (cwd s)) ''Orders'' ''Row ID'' = Inr d"
    and "s' = after_acquisition (after_setup s) d"
  using assms by (auto simp: run_all_eq split: option.splits sum.splits)

lemma df_after_run:
  "namespace (after_acquisition t d) ''df'' = Some (VFrame d)"
  by (simp add: after_acquisition_def)

text \<open>The notebook takes \<open>example_kernel\<close> to \<open>example_final\<close>.\<close>

lemma run_example: "run_all example_kernel = Inr example_final"
  by (simp add: run_all_eq missing_package_def pip_installed_def example_kernel_def
        example_final_def example_frame_def example_sheet_def superstore_xls_def join_def
        abspath_def normpath_step_def read_excel_def parse_sheet_def drop_col_def pad_def
        after_setup_def after_acquisition_def)

section \<open>The Data Profiling cells\<close>

lemma frame_names_after_setup: "frame_names (after_setup s) \<subseteq> frame_names s"
  by (auto simp: frame_names_def after_setup_def split: if_splits)

lemma frame_names_after_acquisition:
  "frame_names (after_acquisition t d) \<subseteq> insert ''df'' (frame_names t)"
  by (auto simp: frame_names_def after_acquisition_def split: if_splits)

text \<open>
  Claim C10. Whenever the notebook runs to its end, no statement follows data acquisition:
  the five Data Profiling cells hold no statement and leave every state as it is, so the
  state after the acquisition cell is the final state; \<^verbatim>\<open>df\<close> holds a DataFrame in it,
  and no other variable holds a DataFrame that it did not hold before the run.
\<close>

theorem data_profiling_cells_do_nothing:
  assumes "run_all s = Inr s'"
  shows "concat profiling_cells = []
       \<and> run_cells profiling_cells s' = Inr s'
       \<and> run_cells (setup_cells @ [cell_53ad0d7f]) s = Inr s'
       \<and> ''df'' \<in> frame_names s'
       \<and> frame_names s' \<subseteq> insert ''df'' (frame_names s)"
proof -
  from assms obtain d where s': "s' = after_acquisition (after_setup s) d"
    by (rule run_all_Inr)
  have empty: "concat profiling_cells = []"
    by (simp add: profiling_cells_def profiling_cell_defs)
  have "run_all s = (case run_cells (setup_cells @ [cell_53ad0d7f]) s of
                       Inl e \<Rightarrow> Inl e | Inr t \<Rightarrow> run_cells profiling_cells t)"
    by (simp add: run_all_def notebook_def run_cells_append split: sum.splits)
  with assms have six: "run_cells (setup_cells @ [cell_53ad0d7f]) s = Inr s'"
    by (simp add: run_profiling_cells split: sum.splits)
  have bound: "''df'' \<in> frame_names s'"
    by (simp add: s' frame_names_def after_acquisition_def)
  have only: "frame_names s' \<subseteq> insert ''df'' (frame_names s)"
    using frame_names_after_acquisition [of "after_setup s" d] frame_names_after_setup [of s]
    unfolding s' by blast
  from empty run_profiling_cells six bound only show ?thesis by simp
qed

theorem data_profiling_cells_do_nothing_witness:
  "run_all example_kernel = Inr example_final
   \<and> run_cells profiling_cells example_final = Inr example_final
   \<and> run_cells (setup_cells @ [cell_53ad0d7f]) example_kernel = Inr example_final
   \<and> frame_names example_kernel = {}
   \<and> frame_names example_final = {''df''}"
proof -
  have run: "run_all example_kernel = Inr example_final"
    by (rule run_example)
  have none: "frame_names example_kernel = {}"
    by (simp add: frame_names_def example_kernel_def)
  from data_profiling_cells_do_nothing [OF run] none run show ?thesis
    by auto
qed

section \<open>The warnings filter\<close>





















section \<open>Reading the sheet\<close>








section \<open>Two runs\<close>

text \<open>
  The result of a run is a function of the packages, the working directory and the files.
\<close>

lemma loaded_run_all:
  "loaded (run_all s) =
     (case missing_package s of
        Some p \<Rightarrow> Inl (ModuleNotFoundError p)
      | None \<Rightarrow>
          (case read_excel (files s) (superstore_xls (cwd s)) ''Orders'' ''Row ID'' of
             Inl e \<Rightarrow> Inl e
           | Inr d \<Rightarrow> Inr (Some (VFrame d))))"
  by (simp add: run_all_eq loaded_def df_after_run split: option.splits sum.splits)



text \<open>A second run in the kernel the first run left loads the same frame.\<close>

lemma rerun_loads_the_same:
  assumes "run_all s = Inr s'"
  shows "loaded (run_all s') = loaded (run_all s)"
proof -
  from assms obtain d where ok: "missing_package s = None"
    and s': "s' = after_acquisition (after_setup s) d"
    by (rule run_all_Inr)
  have env: "cwd s' = cwd s" "files s' = files s"
    by (simp_all add: s' after_acquisition_def after_setup_def)
  from ok have "missing_package s' = None"
    by (auto simp: s' missing_package_def pip_installed_def after_acquisition_def
          after_setup_def split: if_splits)
  with ok env show ?thesis
    by (simp add: loaded_run_all)
qed

end
